theory Spec2Isabelle
  imports Complex_Main "HOL-Library.Multiset"
begin

section \<open>Numbers\<close>

text \<open>
  The program computes with JavaScript numbers. The embedding takes a finite number to be
  an exact rational: sums, differences, products, quotients and comparisons are the
  mathematical ones, without the rounding of binary floating point. \<open>Math.round\<close>
  rounds to the nearest integer, a half going up.
\<close>

definition math_round :: "rat \<Rightarrow> int" where
  "math_round x = \<lfloor>x + 1 / 2\<rfloor>"

section \<open>JavaScript numbers and strings\<close>

text \<open>
  A number is \<open>NaN\<close>, an infinity or a finite value; a finite value is an exact rational
  (no rounding, no overflow to infinity). A string is the list of its code units, which
  the model takes below 256.
\<close>

datatype jsnum = NaN | PosInf | NegInf | Fin rat

fun js_neg :: "jsnum \<Rightarrow> jsnum" where
  "js_neg NaN = NaN"
| "js_neg PosInf = NegInf"
| "js_neg NegInf = PosInf"
| "js_neg (Fin a) = Fin (- a)"

fun js_add :: "jsnum \<Rightarrow> jsnum \<Rightarrow> jsnum" where
  "js_add NaN _ = NaN"
| "js_add _ NaN = NaN"
| "js_add PosInf NegInf = NaN"
| "js_add NegInf PosInf = NaN"
| "js_add PosInf _ = PosInf"
| "js_add NegInf _ = NegInf"
| "js_add (Fin a) PosInf = PosInf"
| "js_add (Fin a) NegInf = NegInf"
| "js_add (Fin a) (Fin b) = Fin (a + b)"

definition js_sub :: "jsnum \<Rightarrow> jsnum \<Rightarrow> jsnum" where
  "js_sub a b = js_add a (js_neg b)"

text \<open>The sign of a number that is not \<open>NaN\<close>: \<open>-1\<close>, \<open>0\<close> or \<open>1\<close>.\<close>

fun js_sign :: "jsnum \<Rightarrow> int" where
  "js_sign NaN = 0"
| "js_sign PosInf = 1"
| "js_sign NegInf = - 1"
| "js_sign (Fin a) = (if a < 0 then - 1 else if a = 0 then 0 else 1)"

fun js_mul :: "jsnum \<Rightarrow> jsnum \<Rightarrow> jsnum" where
  "js_mul NaN _ = NaN"
| "js_mul _ NaN = NaN"
| "js_mul (Fin a) (Fin b) = Fin (a * b)"
| "js_mul a b =
     (if js_sign a * js_sign b = 0 then NaN
      else if js_sign a * js_sign b < 0 then NegInf else PosInf)"

definition isNaN :: "jsnum \<Rightarrow> bool" where
  "isNaN v = (v = NaN)"


text \<open>The remainder \<open>x % y\<close> of finite numbers, \<open>y\<close> not zero: the sign is that of \<open>x\<close>.\<close>

definition js_trunc :: "rat \<Rightarrow> int" where
  "js_trunc q = (if 0 \<le> q then \<lfloor>q\<rfloor> else \<lceil>q\<rceil>)"

definition js_rem :: "rat \<Rightarrow> rat \<Rightarrow> rat" where
  "js_rem x y = x - y * of_int (js_trunc (x / y))"

subsection \<open>Digits\<close>

definition isDigit :: "char \<Rightarrow> bool" where
  "isDigit c = (48 \<le> (of_char c :: nat) \<and> (of_char c :: nat) \<le> 57)"

definition digitVal :: "char \<Rightarrow> nat" where
  "digitVal c = of_char c - 48"

definition digitChar :: "nat \<Rightarrow> char" where
  "digitChar d = ''0123456789'' ! d"

definition digitsValue :: "string \<Rightarrow> nat" where
  "digitsValue ds = foldl (\<lambda>acc c. acc * 10 + digitVal c) 0 ds"

text \<open>The decimal digits of a natural number, \<open>0\<close> giving \<open>''0''\<close>.\<close>

fun natToString :: "nat \<Rightarrow> string" where
  "natToString n =
     (if n < 10 then [digitChar n] else natToString (n div 10) @ [digitChar (n mod 10)])"

declare natToString.simps [simp del]

text \<open>A digit string: not empty, decimal digits only.\<close>

definition digitString :: "string \<Rightarrow> bool" where
  "digitString ds = (ds \<noteq> [] \<and> (\<forall>c\<in>set ds. c \<in> digitChar ` {..<10}))"

text \<open>
  White space and line terminators, as \<open>trim\<close>, \<open>parseInt\<close>, \<open>parseFloat\<close> and
  \<open>Number\<close> skip them: tab, line feed, vertical tab, form feed, carriage return, space
  and no-break space.
\<close>

definition isWhite :: "char \<Rightarrow> bool" where
  "isWhite c = ((of_char c :: nat) \<in> {9, 10, 11, 12, 13, 32, 160})"

subsection \<open>Number to string\<close>

text \<open>
  \<open>String.prototype.padStart\<close> with a one-character filler.
\<close>

definition padStart :: "nat \<Rightarrow> char \<Rightarrow> string \<Rightarrow> string" where
  "padStart n c s = (if n \<le> length s then s else replicate (n - length s) c @ s)"

text \<open>
  \<open>Number.prototype.toString\<close> at an integer. Below \<open>10^21\<close> in absolute value the
  digits are written out. From \<open>10^21\<close> on JavaScript writes the first digit, the further
  digits after a point, and \<open>e+\<close> with the exponent; it prints the shortest digits that
  read back as the same double, where the model prints the digits up to the last one that
  is not zero.
\<close>

definition stripZeros :: "string \<Rightarrow> string" where
  "stripZeros ds = rev (dropWhile (\<lambda>c. c = CHR ''0'') (rev ds))"

definition numberToString :: "int \<Rightarrow> string" where
  "numberToString m =
     (let s = (if m < 0 then ''-'' else []);
          ds = natToString (nat \<bar>m\<bar>)
      in if \<bar>m\<bar> < 10 ^ 21 then s @ ds
         else let e = natToString (length ds - 1);
                  further = stripZeros (tl ds)
              in s @ [hd ds] @ (if further = [] then [] else ''.'' @ further) @ ''e+'' @ e)"

text \<open>
  \<open>Number.prototype.toFixed(f)\<close> at a finite number below \<open>10^21\<close> in absolute value:
  \<open>n\<close> is the integer nearest to \<open>|x| * 10^f\<close>, the larger one on a tie.
\<close>

definition toFixed :: "nat \<Rightarrow> rat \<Rightarrow> string" where
  "toFixed f x =
     (let s = (if x < 0 then ''-'' else []);
          n = nat \<lfloor>\<bar>x\<bar> * 10 ^ f + 1 / 2\<rfloor>;
          m = natToString n
      in if f = 0 then s @ m
         else let ds = padStart (f + 1) (CHR ''0'') m;
                  k = length ds - f
              in s @ take k ds @ ''.'' @ drop k ds)"

subsection \<open>String to number\<close>

text \<open>\<open>String.prototype.split\<close> with a one-character separator.\<close>

fun splitOn :: "char \<Rightarrow> string \<Rightarrow> string list" where
  "splitOn sep [] = [[]]"
| "splitOn sep (c # cs) =
     (if c = sep then [] # splitOn sep cs
      else (c # hd (splitOn sep cs)) # tl (splitOn sep cs))"

fun takeSign :: "string \<Rightarrow> int \<times> string" where
  "takeSign [] = (1, [])"
| "takeSign (c # cs) =
     (if c = CHR ''-'' then (- 1, cs) else if c = CHR ''+'' then (1, cs) else (1, c # cs))"

text \<open>
  \<open>parseInt(s, 10)\<close>: leading white space, a sign, then the longest run of decimal
  digits; \<open>NaN\<close> when that run is empty.
\<close>

definition parseInt :: "string \<Rightarrow> jsnum" where
  "parseInt s =
     (let (sign, r) = takeSign (dropWhile isWhite s);
          ds = takeWhile isDigit r
      in if ds = [] then NaN else Fin (of_int (sign * int (digitsValue ds))))"

text \<open>
  The longest prefix that is a \<open>StrDecimalLiteral\<close>, with its value and the rest of the
  string: a sign, then \<open>Infinity\<close> or digits with an optional fraction and an optional
  exponent; without a digit before or after the point there is no literal.
\<close>

definition exponentPart :: "string \<Rightarrow> int \<times> string" where
  "exponentPart s =
     (case s of
        [] \<Rightarrow> (0, s)
      | c # cs \<Rightarrow>
          if c = CHR ''e'' \<or> c = CHR ''E''
          then let (sign, r) = takeSign cs;
                   ds = takeWhile isDigit r
               in if ds = [] then (0, s) else (sign * int (digitsValue ds), dropWhile isDigit r)
          else (0, s))"

definition scale10 :: "rat \<Rightarrow> int \<Rightarrow> rat" where
  "scale10 v e = (if 0 \<le> e then v * 10 ^ nat e else v / 10 ^ nat (- e))"

definition unsignedDecimal :: "string \<Rightarrow> (rat \<times> string) option" where
  "unsignedDecimal s =
     (let ip = takeWhile isDigit s;
          r1 = dropWhile isDigit s;
          dot = (r1 \<noteq> [] \<and> hd r1 = CHR ''.'');
          fp = (if dot then takeWhile isDigit (tl r1) else []);
          r2 = (if dot then dropWhile isDigit (tl r1) else r1)
      in if ip = [] \<and> fp = [] then None
         else let (e, r3) = exponentPart r2;
                  mant = of_nat (digitsValue ip) + of_nat (digitsValue fp) / 10 ^ length fp
              in Some (scale10 mant e, r3))"

definition strDecimalLiteral :: "string \<Rightarrow> (jsnum \<times> string) option" where
  "strDecimalLiteral s =
     (let (sign, r) = takeSign s
      in if take 8 r = ''Infinity''
         then Some (if sign < 0 then NegInf else PosInf, drop 8 r)
         else (case unsignedDecimal r of
                 None \<Rightarrow> None
               | Some (v, rest) \<Rightarrow> Some (Fin (of_int sign * v), rest)))"

definition parseFloat :: "string \<Rightarrow> jsnum" where
  "parseFloat s =
     (case strDecimalLiteral (dropWhile isWhite s) of
        None \<Rightarrow> NaN
      | Some (v, rest) \<Rightarrow> v)"

section \<open>Time codec (src/lib/utils.ts)\<close>

definition formatTime :: "rat \<Rightarrow> string" where
  "formatTime seconds =
     (let mins = \<lfloor>seconds / 60\<rfloor>;
          secs = js_rem seconds 60;
          secsRounded = of_int (math_round (secs * 10)) / 10;
          secsStr = (if js_rem secsRounded 1 = 0
                     then padStart 2 (CHR ''0'') (toFixed 0 secsRounded)
                     else padStart 4 (CHR ''0'') (toFixed 1 secsRounded))
      in padStart 2 (CHR ''0'') (numberToString mins) @ '':'' @ secsStr)"

definition parseTime :: "string \<Rightarrow> jsnum" where
  "parseTime timeStr =
     (let parts = splitOn (CHR '':'') timeStr
      in if length parts \<noteq> 2 then Fin 0
         else let mins = parseInt (parts ! 0);
                  secs = parseFloat (parts ! 1)
              in if isNaN mins \<or> isNaN secs then Fin 0
                 else js_add (js_mul mins (Fin 60)) secs)"

section \<open>Snap resolver (src/lib/timeline-utils.ts)\<close>

record SnapToEdgeResult =
  time :: rat
  snapped :: bool

record SnapConfig =
  gridEnabled :: bool
  gridInterval :: rat
  edgeEnabled :: bool
  edgeThreshold :: rat

definition DEFAULT_SNAP_CONFIG :: SnapConfig where
  "DEFAULT_SNAP_CONFIG =
     \<lparr>gridEnabled = True, gridInterval = 1 / 2, edgeEnabled = True, edgeThreshold = 1 / 5\<rparr>"

definition snapToGrid :: "rat \<Rightarrow> rat \<Rightarrow> bool \<Rightarrow> rat" where
  "snapToGrid t interval enabled =
     (if \<not> enabled \<or> interval \<le> 0 then t
      else of_int (math_round (t / interval)) * interval)"

text \<open>
  The \<open>for\<close> loop of \<open>snapToEdge\<close>: the pair is \<open>(closestTarget, minDistance)\<close>.
\<close>

fun edgeScan :: "rat \<Rightarrow> rat list \<Rightarrow> rat \<times> rat \<Rightarrow> rat \<times> rat" where
  "edgeScan t [] acc = acc"
| "edgeScan t (target # rest) (closestTarget, minDistance) =
     (let distance = \<bar>t - target\<bar>
      in if distance < minDistance then edgeScan t rest (target, distance)
         else edgeScan t rest (closestTarget, minDistance))"

definition snapToEdge :: "rat \<Rightarrow> rat list \<Rightarrow> rat \<Rightarrow> bool \<Rightarrow> SnapToEdgeResult" where
  "snapToEdge t targets threshold enabled =
     (if \<not> enabled \<or> length targets = 0 then \<lparr>time = t, snapped = False\<rparr>
      else let closestTarget = fst (edgeScan t targets (t, threshold))
           in \<lparr>time = closestTarget, snapped = (closestTarget \<noteq> t)\<rparr>)"

definition snapTime :: "rat \<Rightarrow> rat list \<Rightarrow> SnapConfig \<Rightarrow> SnapToEdgeResult" where
  "snapTime t targets config =
     (let edgeResult = snapToEdge t targets (edgeThreshold config) (edgeEnabled config)
      in if snapped edgeResult then edgeResult
         else let gridSnapped = snapToGrid t (gridInterval config) (gridEnabled config)
              in \<lparr>time = gridSnapped, snapped = False\<rparr>)"

section \<open>Project store (src/stores/project-store.ts)\<close>

text \<open>
  The entities of src/types/index.ts. The fields \<open>id\<close>, \<open>name\<close>, \<open>color\<close>,
  \<open>text\<close>, \<open>date\<close> and \<open>file\<close> carry a suffix, the others keep their names.
\<close>

record Segment =
  id_seg :: string
  speakerId :: string
  startTime :: string
  endTime :: string
  text_seg :: string

record Speaker =
  id_spk :: string
  name_spk :: string
  color_spk :: string

record FileMetaData =
  name_meta :: string
  duration :: rat
  language :: string
  date_meta :: string

datatype AppView = WELCOME | EDITOR

text \<open>
  \<open>Partial<Segment>\<close> and \<open>Partial<Speaker>\<close>: each property is absent (\<open>None\<close>) or
  holds a string. The object spread \<open>{ ...s, ...updates }\<close> keeps the properties of
  \<open>s\<close> that \<open>updates\<close> lacks and takes the others from \<open>updates\<close>.
\<close>

record SegmentUpdates =
  id_upd :: "string option"
  speakerId_upd :: "string option"
  startTime_upd :: "string option"
  endTime_upd :: "string option"
  text_upd :: "string option"


definition spreadSegment :: "Segment \<Rightarrow> SegmentUpdates \<Rightarrow> Segment" where
  "spreadSegment s updates =
     \<lparr>id_seg = (case id_upd updates of None \<Rightarrow> id_seg s | Some v \<Rightarrow> v),
      speakerId = (case speakerId_upd updates of None \<Rightarrow> speakerId s | Some v \<Rightarrow> v),
      startTime = (case startTime_upd updates of None \<Rightarrow> startTime s | Some v \<Rightarrow> v),
      endTime = (case endTime_upd updates of None \<Rightarrow> endTime s | Some v \<Rightarrow> v),
      text_seg = (case text_upd updates of None \<Rightarrow> text_seg s | Some v \<Rightarrow> v)\<rparr>"


record HistoryEntry =
  segments_h :: "Segment list"
  speakers_h :: "Speaker list"

text \<open>
  The data of \<open>ProjectState\<close>. The \<open>File\<close> object of the browser is opaque to the
  store and stands here as its name.
\<close>

record ProjectState =
  view :: AppView
  file_obj :: "string option"
  audioUrl :: "string option"
  meta :: FileMetaData
  isProcessing :: bool
  loadingMessage :: string
  segments :: "Segment list"
  speakers :: "Speaker list"
  past :: "HistoryEntry list"
  future :: "HistoryEntry list"
  selectedSegmentId :: "string option"

text \<open>The entry every mutating action appends to \<open>past\<close>.\<close>

definition snapshot :: "ProjectState \<Rightarrow> HistoryEntry" where
  "snapshot state = \<lparr>segments_h = segments state, speakers_h = speakers state\<rparr>"


definition updateSegment :: "string \<Rightarrow> SegmentUpdates \<Rightarrow> ProjectState \<Rightarrow> ProjectState" where
  "updateSegment i updates state =
     (let newSegments = map (\<lambda>s. if id_seg s = i then spreadSegment s updates else s)
                            (segments state)
      in state\<lparr>past := past state @ [snapshot state], future := [],
               segments := newSegments\<rparr>)"




definition mergeSpeakers :: "string \<Rightarrow> string \<Rightarrow> ProjectState \<Rightarrow> ProjectState" where
  "mergeSpeakers fromId toId state =
     state\<lparr>past := past state @ [snapshot state], future := [],
           segments := map (\<lambda>s. if speakerId s = fromId then s\<lparr>speakerId := toId\<rparr> else s)
                           (segments state),
           speakers := filter (\<lambda>s. id_spk s \<noteq> fromId) (speakers state)\<rparr>"



definition initialMeta :: FileMetaData where
  "initialMeta =
     \<lparr>name_meta = ''Untitled Project'', duration = 0, language = ''English'',
      date_meta = []\<rparr>"

definition DEFAULT_SPEAKERS :: "Speaker list" where
  "DEFAULT_SPEAKERS =
     [\<lparr>id_spk = ''speaker_1'', name_spk = ''Narrator'', color_spk = ''#3b82f6''\<rparr>,
      \<lparr>id_spk = ''speaker_2'', name_spk = ''French Narrator'', color_spk = ''#f97316''\<rparr>,
      \<lparr>id_spk = ''speaker_3'', name_spk = ''Male Speaker'', color_spk = ''#a855f7''\<rparr>,
      \<lparr>id_spk = ''speaker_4'', name_spk = ''Female Speaker'', color_spk = ''#ec4899''\<rparr>]"

definition initialState :: ProjectState where
  "initialState =
     \<lparr>view = WELCOME, file_obj = None, audioUrl = None, meta = initialMeta,
      isProcessing = False, loadingMessage = [], segments = [],
      speakers = DEFAULT_SPEAKERS, past = [], future = [], selectedSegmentId = None\<rparr>"



definition canUndo :: "ProjectState \<Rightarrow> bool" where
  "canUndo state = (length (past state) > 0)"


section \<open>Drag controller (the Timeline component)\<close>

text \<open>
  \<open>getSegmentEdgeTimes\<close> of src/lib/timeline-utils.ts: the parsed start and end of
  every segment but the excluded one.
\<close>

fun getSegmentEdgeTimes :: "Segment list \<Rightarrow> string \<Rightarrow> (string \<Rightarrow> jsnum) \<Rightarrow> jsnum list" where
  "getSegmentEdgeTimes [] excludeId parseTimeFn = []"
| "getSegmentEdgeTimes (seg # rest) excludeId parseTimeFn =
     (if id_seg seg = excludeId then getSegmentEdgeTimes rest excludeId parseTimeFn
      else parseTimeFn (startTime seg) # parseTimeFn (endTime seg)
             # getSegmentEdgeTimes rest excludeId parseTimeFn)"

text \<open>
  The snap resolver above works on finite numbers. A target that is infinite or \<open>NaN\<close>
  is at no distance below a threshold, so the scan of \<open>snapToEdge\<close> passes over it, and
  a list of such targets gives the same result as the empty list: they are left out.
\<close>

fun finiteTargets :: "jsnum list \<Rightarrow> rat list" where
  "finiteTargets [] = []"
| "finiteTargets (Fin a # rest) = a # finiteTargets rest"
| "finiteTargets (_ # rest) = finiteTargets rest"

datatype DragMode = DragLeft | DragRight | DragMove

record DragState =
  segmentId :: string
  mode :: DragMode
  initialX :: rat
  initialStartTime :: rat
  initialEndTime :: rat

text \<open>
  The state of the component that a drag reads and writes: the two snap switches and the
  guides on display. \<open>gridSnapInterval\<close> and \<open>edgeThreshold\<close> are constants of the
  component.
\<close>

record TimelineState =
  gridSnap :: bool
  dragLineSnap :: bool
  snapGuides :: "rat list"

definition gridSnapInterval :: rat where
  "gridSnapInterval = 1 / 2"

definition edgeThreshold_tl :: rat where
  "edgeThreshold_tl = 1 / 5"

definition snapConfig :: "TimelineState \<Rightarrow> SnapConfig" where
  "snapConfig ui =
     \<lparr>gridEnabled = gridSnap ui, gridInterval = gridSnapInterval,
      edgeEnabled = dragLineSnap ui, edgeThreshold = edgeThreshold_tl\<rparr>"

definition getSnapTargets :: "Segment list \<Rightarrow> string \<Rightarrow> rat list" where
  "getSnapTargets segs excludeSegmentId =
     finiteTargets (getSegmentEdgeTimes segs excludeSegmentId parseTime)"

definition performEdgeSnap :: "TimelineState \<Rightarrow> Segment list \<Rightarrow> rat \<Rightarrow> string \<Rightarrow> SnapToEdgeResult" where
  "performEdgeSnap ui segs t excludeSegmentId =
     snapToEdge t (getSnapTargets segs excludeSegmentId) edgeThreshold_tl (dragLineSnap ui)"

definition performSnap :: "TimelineState \<Rightarrow> Segment list \<Rightarrow> rat \<Rightarrow> string \<Rightarrow> rat" where
  "performSnap ui segs t excludeSegmentId =
     time (snapTime t (getSnapTargets segs excludeSegmentId) (snapConfig ui))"

text \<open>
  \<open>handleSegmentDragStart\<close>: the drag state holds the pointer position and the parsed
  bounds of the segment. The model covers finite bounds (\<open>parseTime\<close> is never
  \<open>NaN\<close>, and infinite only for a seconds part that spells \<open>Infinity\<close>).
\<close>

definition handleSegmentDragStart :: "rat \<Rightarrow> string \<Rightarrow> DragMode \<Rightarrow> Segment \<Rightarrow> DragState option" where
  "handleSegmentDragStart mouseX sid m segment =
     (case (parseTime (startTime segment), parseTime (endTime segment)) of
        (Fin s, Fin e) \<Rightarrow>
          Some \<lparr>segmentId = sid, mode = m, initialX = mouseX,
                initialStartTime = s, initialEndTime = e\<rparr>
      | _ \<Rightarrow> None)"

definition noSegmentUpdates :: SegmentUpdates where
  "noSegmentUpdates =
     \<lparr>id_upd = None, speakerId_upd = None, startTime_upd = None, endTime_upd = None,
      text_upd = None\<rparr>"

text \<open>
  \<open>handleMouseMove\<close> of the segment drag, without the scrolling of the view.
  \<open>deltaTime\<close> is \<open>deltaX / zoomLevel\<close>; the segments the component reads are those of
  the store, and \<open>onUpdateSegment\<close> is the store's \<open>updateSegment\<close>.
\<close>

definition handleMouseMove :: "DragState \<Rightarrow> rat \<Rightarrow> TimelineState \<times> ProjectState \<Rightarrow> TimelineState \<times> ProjectState" where
  "handleMouseMove dragState deltaTime st =
     (let ui = fst st; store = snd st; segs = segments store
      in case find (\<lambda>s. id_seg s = segmentId dragState) segs of
           None \<Rightarrow> st
         | Some segment \<Rightarrow>
             let minDuration = 1 / 2;
                 segmentDuration = initialEndTime dragState - initialStartTime dragState
             in if mode dragState = DragLeft then
                  let rawStart = max 0 (initialStartTime dragState + deltaTime);
                      newStart = performSnap ui segs rawStart (id_seg segment)
                  in if newStart < initialEndTime dragState - minDuration
                     then let store' = updateSegment (id_seg segment)
                                         (noSegmentUpdates\<lparr>startTime_upd := Some (formatTime newStart)\<rparr>)
                                         store;
                              edgeResult = performEdgeSnap ui segs rawStart (id_seg segment)
                          in (ui\<lparr>snapGuides := (if snapped edgeResult then [time edgeResult] else [])\<rparr>,
                              store')
                     else (ui\<lparr>snapGuides := []\<rparr>, store)
                else if mode dragState = DragRight then
                  let rawEnd = max (initialStartTime dragState + minDuration)
                                   (initialEndTime dragState + deltaTime);
                      newEnd = performSnap ui segs rawEnd (id_seg segment);
                      store' = updateSegment (id_seg segment)
                                 (noSegmentUpdates\<lparr>endTime_upd := Some (formatTime newEnd)\<rparr>)
                                 store;
                      edgeResult = performEdgeSnap ui segs rawEnd (id_seg segment)
                  in (ui\<lparr>snapGuides := (if snapped edgeResult then [time edgeResult] else [])\<rparr>,
                      store')
                else
                  let rawStart = max 0 (initialStartTime dragState + deltaTime);
                      rawEnd = rawStart + segmentDuration;
                      startSnap = performEdgeSnap ui segs rawStart (id_seg segment);
                      endSnap = performEdgeSnap ui segs rawEnd (id_seg segment);
                      newStart = (if snapped startSnap then time startSnap
                                  else if snapped endSnap then time endSnap - segmentDuration
                                  else snapToGrid rawStart gridSnapInterval (gridSnap ui));
                      activeGuides = (if snapped startSnap then [time startSnap]
                                      else if snapped endSnap then [time endSnap]
                                      else []);
                      store' = updateSegment (id_seg segment)
                                 (noSegmentUpdates
                                    \<lparr>startTime_upd := Some (formatTime (max 0 newStart)),
                                     endTime_upd :=
                                       Some (formatTime (max 0 newStart + segmentDuration))\<rparr>)
                                 store
                  in (ui\<lparr>snapGuides := activeGuides\<rparr>, store'))"

section \<open>Adding a segment\<close>



















section \<open>The mutating actions as one type\<close>



section \<open>Properties of the snap resolver\<close>

subsection \<open>The scan of \<open>snapToEdge\<close>\<close>

lemma edgeScan_keep:
  "\<forall>x\<in>set xs. \<not> \<bar>t - x\<bar> < m0 \<Longrightarrow> edgeScan t xs (c0, m0) = (c0, m0)"
  by (induction xs) auto

lemma edgeScan_first_min:
  "\<exists>x\<in>set xs. \<bar>t - x\<bar> < m0 \<Longrightarrow>
   \<exists>pre c post. xs = pre @ c # post \<and> edgeScan t xs (c0, m0) = (c, \<bar>t - c\<bar>)
      \<and> \<bar>t - c\<bar> < m0
      \<and> (\<forall>y\<in>set pre. \<bar>t - c\<bar> < \<bar>t - y\<bar>) \<and> (\<forall>y\<in>set post. \<bar>t - c\<bar> \<le> \<bar>t - y\<bar>)"
proof (induction xs arbitrary: c0 m0)
  case Nil
  then show ?case by simp
next
  case (Cons x xs)
  show ?case
  proof (cases "\<bar>t - x\<bar> < m0")
    case near: True
    show ?thesis
    proof (cases "\<exists>y\<in>set xs. \<bar>t - y\<bar> < \<bar>t - x\<bar>")
      case True
      from Cons.IH [OF True, of x] obtain pre c post where
        h: "xs = pre @ c # post" "edgeScan t xs (x, \<bar>t - x\<bar>) = (c, \<bar>t - c\<bar>)"
           "\<bar>t - c\<bar> < \<bar>t - x\<bar>" "\<forall>y\<in>set pre. \<bar>t - c\<bar> < \<bar>t - y\<bar>"
           "\<forall>y\<in>set post. \<bar>t - c\<bar> \<le> \<bar>t - y\<bar>"
        by blast
      have "x # xs = (x # pre) @ c # post" using h(1) by simp
      moreover have "edgeScan t (x # xs) (c0, m0) = (c, \<bar>t - c\<bar>)"
        using near h(2) by simp
      moreover have "\<bar>t - c\<bar> < m0" using h(3) near by linarith
      moreover have "\<forall>y\<in>set (x # pre). \<bar>t - c\<bar> < \<bar>t - y\<bar>" using h(3,4) by simp
      ultimately show ?thesis using h(5) by blast
    next
      case False
      then have "edgeScan t xs (x, \<bar>t - x\<bar>) = (x, \<bar>t - x\<bar>)"
        by (intro edgeScan_keep) simp
      then have "edgeScan t (x # xs) (c0, m0) = (x, \<bar>t - x\<bar>)"
        using near by simp
      moreover have "x # xs = [] @ x # xs" by simp
      moreover have "\<forall>y\<in>set xs. \<bar>t - x\<bar> \<le> \<bar>t - y\<bar>" using False by auto
      ultimately show ?thesis using near
        by (metis empty_iff list.set(1))
    qed
  next
    case far: False
    with Cons.prems have "\<exists>y\<in>set xs. \<bar>t - y\<bar> < m0" by auto
    from Cons.IH [OF this, of c0] obtain pre c post where
      h: "xs = pre @ c # post" "edgeScan t xs (c0, m0) = (c, \<bar>t - c\<bar>)"
         "\<bar>t - c\<bar> < m0" "\<forall>y\<in>set pre. \<bar>t - c\<bar> < \<bar>t - y\<bar>"
         "\<forall>y\<in>set post. \<bar>t - c\<bar> \<le> \<bar>t - y\<bar>"
      by blast
    have "x # xs = (x # pre) @ c # post" using h(1) by simp
    moreover have "edgeScan t (x # xs) (c0, m0) = (c, \<bar>t - c\<bar>)"
      using far h(2) by simp
    moreover have "\<forall>y\<in>set (x # pre). \<bar>t - c\<bar> < \<bar>t - y\<bar>" using h(3,4) far by auto
    ultimately show ?thesis using h(3,5) by blast
  qed
qed


text \<open>
  C4. An enabled \<open>snapToEdge\<close> returns the first target, in list order, that attains the
  least distance to the input among the targets strictly nearer than the threshold: the
  targets before it are strictly farther and those after it are at least as far. When no
  target is strictly nearer than the threshold (one at exactly the threshold does not
  count) the input comes back. \<open>snapped\<close> holds exactly when the returned time differs
  from the input. With targets 1, 3, 5, 10 and threshold 0.2, the input 1.1 gives time 1,
  snapped, and the input 1.3 comes back unsnapped.
\<close>

theorem snapToEdge_first_closest:
  "(let r = snapToEdge t targets threshold True
    in (if \<exists>x\<in>set targets. \<bar>t - x\<bar> < threshold
        then \<exists>pre post. targets = pre @ time r # post \<and> \<bar>t - time r\<bar> < threshold
               \<and> (\<forall>y\<in>set pre. \<bar>t - time r\<bar> < \<bar>t - y\<bar>)
               \<and> (\<forall>y\<in>set post. \<bar>t - time r\<bar> \<le> \<bar>t - y\<bar>)
        else time r = t)
       \<and> snapped r = (time r \<noteq> t))
   \<and> snapToEdge (11 / 10) [1, 3, 5, 10] (1 / 5) True = \<lparr>time = 1, snapped = True\<rparr>
   \<and> snapToEdge (13 / 10) [1, 3, 5, 10] (1 / 5) True = \<lparr>time = 13 / 10, snapped = False\<rparr>"
proof -
  let ?r = "snapToEdge t targets threshold True"
  have flag: "snapped ?r = (time ?r \<noteq> t)"
    by (simp add: snapToEdge_def Let_def)
  have main: "if \<exists>x\<in>set targets. \<bar>t - x\<bar> < threshold
        then \<exists>pre post. targets = pre @ time ?r # post \<and> \<bar>t - time ?r\<bar> < threshold
               \<and> (\<forall>y\<in>set pre. \<bar>t - time ?r\<bar> < \<bar>t - y\<bar>)
               \<and> (\<forall>y\<in>set post. \<bar>t - time ?r\<bar> \<le> \<bar>t - y\<bar>)
        else time ?r = t"
  proof (cases "\<exists>x\<in>set targets. \<bar>t - x\<bar> < threshold")
    case True
    then have ne: "targets \<noteq> []" by auto
    from edgeScan_first_min [OF True, of t] obtain pre c post where
      h: "targets = pre @ c # post" "edgeScan t targets (t, threshold) = (c, \<bar>t - c\<bar>)"
         "\<bar>t - c\<bar> < threshold" "\<forall>y\<in>set pre. \<bar>t - c\<bar> < \<bar>t - y\<bar>"
         "\<forall>y\<in>set post. \<bar>t - c\<bar> \<le> \<bar>t - y\<bar>"
      by blast
    have "time ?r = c" using ne h(2) by (simp add: snapToEdge_def Let_def)
    with h True show ?thesis by auto
  next
    case False
    then have "edgeScan t targets (t, threshold) = (t, threshold)"
      by (intro edgeScan_keep) simp
    then have "time ?r = t" by (simp add: snapToEdge_def Let_def)
    with False show ?thesis by simp
  qed
  have e1: "snapToEdge (11 / 10) [1, 3, 5, 10] (1 / 5) True = \<lparr>time = 1, snapped = True\<rparr>"
    by (simp add: snapToEdge_def)
  have e2: "snapToEdge (13 / 10) [1, 3, 5, 10] (1 / 5) True = \<lparr>time = 13 / 10, snapped = False\<rparr>"
    by (simp add: snapToEdge_def)
  show ?thesis using flag main e1 e2 by (simp add: Let_def)
qed

theorem snapToEdge_first_closest_witness:
  "(\<exists>x\<in>set [11 / 5, 4, 19 / 10 :: rat]. \<bar>2 - x\<bar> < 1 / 5)
   \<and> time (snapToEdge 2 [11 / 5, 4, 19 / 10] (1 / 5) True) = 19 / 10"
proof -
  let ?ts = "[11 / 5, 4, 19 / 10 :: rat]"
  let ?r = "snapToEdge 2 ?ts (1 / 5) True"
  have ex: "\<exists>x\<in>set ?ts. \<bar>2 - x\<bar> < 1 / 5"
    by (rule bexI [of _ "19 / 10"]) simp_all
  from snapToEdge_first_closest [of 2 ?ts "1 / 5"] ex
  obtain pre post where
    h: "?ts = pre @ time ?r # post" "\<bar>2 - time ?r\<bar> < 1 / 5"
    unfolding Let_def by metis
  have "time ?r \<in> set ?ts" by (subst h(1)) simp
  with h(2) have "time ?r = 19 / 10" by auto
  with ex show ?thesis by blast
qed

text \<open>
  C3. \<open>snapTime\<close> applies \<open>snapToEdge\<close> first. When that reports a snap its result is
  returned as it is, and the grid settings have no influence on the outcome; otherwise the
  result is the grid-snapped time with \<open>snapped = False\<close>. With targets 2, 4, 6, grid
  interval 0.5 and edge threshold 0.2, the input 1.9 gives time 2, snapped, and the input
  3.2 gives time 3, not snapped.
\<close>

theorem snapTime_edge_before_grid:
  "(let edgeResult = snapToEdge t targets (edgeThreshold config) (edgeEnabled config)
    in (snapped edgeResult \<longrightarrow>
          snapTime t targets config = edgeResult
          \<and> snapTime t targets (config\<lparr>gridEnabled := g, gridInterval := i\<rparr>) = edgeResult)
       \<and> (\<not> snapped edgeResult \<longrightarrow>
          snapTime t targets config =
            \<lparr>time = snapToGrid t (gridInterval config) (gridEnabled config), snapped = False\<rparr>))
   \<and> snapTime (19 / 10) [2, 4, 6]
        \<lparr>gridEnabled = True, gridInterval = 1 / 2, edgeEnabled = True, edgeThreshold = 1 / 5\<rparr>
      = \<lparr>time = 2, snapped = True\<rparr>
   \<and> snapTime (16 / 5) [2, 4, 6]
        \<lparr>gridEnabled = True, gridInterval = 1 / 2, edgeEnabled = True, edgeThreshold = 1 / 5\<rparr>
      = \<lparr>time = 3, snapped = False\<rparr>"
proof -
  have general: "let edgeResult = snapToEdge t targets (edgeThreshold config) (edgeEnabled config)
    in (snapped edgeResult \<longrightarrow>
          snapTime t targets config = edgeResult
          \<and> snapTime t targets (config\<lparr>gridEnabled := g, gridInterval := i\<rparr>) = edgeResult)
       \<and> (\<not> snapped edgeResult \<longrightarrow>
          snapTime t targets config =
            \<lparr>time = snapToGrid t (gridInterval config) (gridEnabled config), snapped = False\<rparr>)"
    by (simp add: snapTime_def Let_def)
  have e1: "snapTime (19 / 10) [2, 4, 6]
        \<lparr>gridEnabled = True, gridInterval = 1 / 2, edgeEnabled = True, edgeThreshold = 1 / 5\<rparr>
      = \<lparr>time = 2, snapped = True\<rparr>"
    by code_simp
  have e2: "snapTime (16 / 5) [2, 4, 6]
        \<lparr>gridEnabled = True, gridInterval = 1 / 2, edgeEnabled = True, edgeThreshold = 1 / 5\<rparr>
      = \<lparr>time = 3, snapped = False\<rparr>"
    by code_simp
  from general e1 e2 show ?thesis by blast
qed

theorem snapTime_edge_before_grid_witness:
  "snapped (snapToEdge (39 / 10) [2, 4, 6] (1 / 5) True)
   \<and> snapTime (39 / 10) [2, 4, 6]
        \<lparr>gridEnabled = True, gridInterval = 1 / 2, edgeEnabled = True, edgeThreshold = 1 / 5\<rparr>
      = snapToEdge (39 / 10) [2, 4, 6] (1 / 5) True
   \<and> \<not> snapped (snapToEdge (5 / 4) [2, 4, 6] (1 / 5) True)
   \<and> snapTime (5 / 4) [2, 4, 6]
        \<lparr>gridEnabled = True, gridInterval = 1 / 2, edgeEnabled = True, edgeThreshold = 1 / 5\<rparr>
      = \<lparr>time = snapToGrid (5 / 4) (1 / 2) True, snapped = False\<rparr>"
proof -
  let ?c = "\<lparr>gridEnabled = True, gridInterval = 1 / 2, edgeEnabled = True, edgeThreshold = 1 / 5\<rparr>"
  have s1: "snapped (snapToEdge (39 / 10) [2, 4, 6] (1 / 5) True)"
    by (simp add: snapToEdge_def)
  have s2: "\<not> snapped (snapToEdge (5 / 4) [2, 4, 6] (1 / 5) True)"
    by (simp add: snapToEdge_def)
  from snapTime_edge_before_grid [where t = "39 / 10" and targets = "[2, 4, 6]" and config = ?c] s1
  have r1: "snapTime (39 / 10) [2, 4, 6] ?c = snapToEdge (39 / 10) [2, 4, 6] (1 / 5) True"
    by (simp add: Let_def)
  from snapTime_edge_before_grid [where t = "5 / 4" and targets = "[2, 4, 6]" and config = ?c] s2
  have r2: "snapTime (5 / 4) [2, 4, 6] ?c = \<lparr>time = snapToGrid (5 / 4) (1 / 2) True, snapped = False\<rparr>"
    by (simp add: Let_def)
  from s1 s2 r1 r2 show ?thesis by blast
qed

text \<open>
  C10. When the input time is itself among the targets, the scan ends with least distance
  0 (for a positive threshold) and \<open>snapToEdge\<close> returns the input with
  \<open>snapped = False\<close>. \<open>snapTime\<close> therefore goes on to the grid and returns the
  grid-snapped time, which can differ from the input: 2.3 with 2.3 among the targets and
  grid interval 0.5 comes back as 2.5.
\<close>

theorem snapTime_own_edge_goes_to_grid:
  "t \<in> set targets \<Longrightarrow>
     (0 < threshold \<longrightarrow> snd (edgeScan t targets (t, threshold)) = 0)
     \<and> snapToEdge t targets threshold enabled = \<lparr>time = t, snapped = False\<rparr>
     \<and> snapTime t targets config =
         \<lparr>time = snapToGrid t (gridInterval config) (gridEnabled config), snapped = False\<rparr>
     \<and> snapTime (23 / 10) [1, 23 / 10, 4]
          \<lparr>gridEnabled = True, gridInterval = 1 / 2, edgeEnabled = True, edgeThreshold = 1 / 5\<rparr>
        = \<lparr>time = 5 / 2, snapped = False\<rparr>"
proof -
  assume mem: "t \<in> set targets"
  have scan: "edgeScan t targets (t, th) = (t, if 0 < th then 0 else th)" for th
  proof (cases "\<exists>x\<in>set targets. \<bar>t - x\<bar> < th")
    case True
    from edgeScan_first_min [OF True, of t] obtain pre c post where
      h: "targets = pre @ c # post" "edgeScan t targets (t, th) = (c, \<bar>t - c\<bar>)"
         "\<bar>t - c\<bar> < th" "\<forall>y\<in>set pre. \<bar>t - c\<bar> < \<bar>t - y\<bar>"
         "\<forall>y\<in>set post. \<bar>t - c\<bar> \<le> \<bar>t - y\<bar>"
      by blast
    have "t \<in> set pre \<or> t = c \<or> t \<in> set post" using mem h(1) by auto
    then have "\<bar>t - c\<bar> \<le> \<bar>t - t\<bar>" using h(4,5) by fastforce
    then have "c = t" by simp
    with h(2,3) show ?thesis by simp
  next
    case False
    then have keep: "edgeScan t targets (t, th) = (t, th)"
      by (intro edgeScan_keep) simp
    from False mem have "\<not> 0 < th" by force
    with keep show ?thesis by simp
  qed
  have zero: "0 < threshold \<longrightarrow> snd (edgeScan t targets (t, threshold)) = 0"
    by (simp add: scan)
  have edge: "snapToEdge t targets th en = \<lparr>time = t, snapped = False\<rparr>" for th en
    by (simp add: snapToEdge_def scan)
  have both: "snapTime t targets config =
         \<lparr>time = snapToGrid t (gridInterval config) (gridEnabled config), snapped = False\<rparr>"
    by (simp add: snapTime_def edge Let_def)
  have ex: "snapTime (23 / 10) [1, 23 / 10, 4]
          \<lparr>gridEnabled = True, gridInterval = 1 / 2, edgeEnabled = True, edgeThreshold = 1 / 5\<rparr>
        = \<lparr>time = 5 / 2, snapped = False\<rparr>"
    by code_simp
  from zero edge both ex show ?thesis by blast
qed

theorem snapTime_own_edge_goes_to_grid_witness:
  "(7 / 5 :: rat) \<in> set [3, 7 / 5]
   \<and> snapToEdge (7 / 5) [3, 7 / 5] (1 / 5) True = \<lparr>time = 7 / 5, snapped = False\<rparr>
   \<and> time (snapTime (7 / 5) [3, 7 / 5] DEFAULT_SNAP_CONFIG) = 3 / 2"
proof -
  have mem: "(7 / 5 :: rat) \<in> set [3, 7 / 5]" by simp
  have grid: "snapToGrid (7 / 5) (1 / 2) True = 3 / 2" by code_simp
  from snapTime_own_edge_goes_to_grid [OF mem, where threshold = "1 / 5" and enabled = True and config = DEFAULT_SNAP_CONFIG] mem grid
  show ?thesis by (simp add: DEFAULT_SNAP_CONFIG_def)
qed

section \<open>Properties of the project store\<close>

text \<open>
  C6. \<open>mergeSpeakers A B\<close> with \<open>A = B\<close> rewrites the segments of \<open>A\<close> to \<open>A\<close>:
  they still name \<open>A\<close> afterwards, while \<open>A\<close> has left the roster.
\<close>

theorem mergeSpeakers_self_counterexample:
  "map speakerId (segments (mergeSpeakers ''speaker_1'' ''speaker_1''
       (initialState\<lparr>segments :=
          [\<lparr>id_seg = ''1'', speakerId = ''speaker_1'', startTime = ''00:00'',
            endTime = ''00:05'', text_seg = ''Hello''\<rparr>]\<rparr>)))
   = [''speaker_1'']"
  by (simp add: mergeSpeakers_def initialState_def)

text \<open>
  C6, amended. For two different speaker ids \<open>A\<close> and \<open>B\<close>: after
  \<open>mergeSpeakers A B\<close> no segment has speaker id \<open>A\<close>; the segment sequence has the
  same length, a segment that had speaker id \<open>A\<close> is the old one with speaker id
  \<open>B\<close> and any other segment is the old one; the roster is the old roster without the
  speakers whose id is \<open>A\<close>.
\<close>

theorem mergeSpeakers_reassigns:
  "fromId \<noteq> toId \<Longrightarrow>
   (let after = mergeSpeakers fromId toId state
    in (\<forall>s\<in>set (segments after). speakerId s \<noteq> fromId)
       \<and> length (segments after) = length (segments state)
       \<and> (\<forall>i<length (segments state).
             segments after ! i =
               (if speakerId (segments state ! i) = fromId
                then (segments state ! i)\<lparr>speakerId := toId\<rparr>
                else segments state ! i))
       \<and> speakers after = filter (\<lambda>s. id_spk s \<noteq> fromId) (speakers state))"
  by (auto simp add: mergeSpeakers_def Let_def)

theorem mergeSpeakers_reassigns_witness:
  "''speaker_2'' \<noteq> ''speaker_1''
   \<and> map speakerId (segments (mergeSpeakers ''speaker_2'' ''speaker_1''
        (initialState\<lparr>segments :=
           [\<lparr>id_seg = ''1'', speakerId = ''speaker_1'', startTime = ''00:00'',
             endTime = ''00:05'', text_seg = ''Hello''\<rparr>,
            \<lparr>id_seg = ''2'', speakerId = ''speaker_2'', startTime = ''00:05'',
             endTime = ''00:10'', text_seg = ''World''\<rparr>]\<rparr>)))
     = [''speaker_1'', ''speaker_1'']
   \<and> map id_spk (speakers (mergeSpeakers ''speaker_2'' ''speaker_1''
        (initialState\<lparr>segments :=
           [\<lparr>id_seg = ''1'', speakerId = ''speaker_1'', startTime = ''00:00'',
             endTime = ''00:05'', text_seg = ''Hello''\<rparr>,
            \<lparr>id_seg = ''2'', speakerId = ''speaker_2'', startTime = ''00:05'',
             endTime = ''00:10'', text_seg = ''World''\<rparr>]\<rparr>)))
     = [''speaker_1'', ''speaker_3'', ''speaker_4'']"
proof -
  let ?st = "initialState\<lparr>segments :=
           [\<lparr>id_seg = ''1'', speakerId = ''speaker_1'', startTime = ''00:00'',
             endTime = ''00:05'', text_seg = ''Hello''\<rparr>,
            \<lparr>id_seg = ''2'', speakerId = ''speaker_2'', startTime = ''00:05'',
             endTime = ''00:10'', text_seg = ''World''\<rparr>]\<rparr>"
  let ?after = "mergeSpeakers ''speaker_2'' ''speaker_1'' ?st"
  have ne: "''speaker_2'' \<noteq> ''speaker_1''" by simp
  from mergeSpeakers_reassigns [OF ne, of ?st]
  have len: "length (segments ?after) = length (segments ?st)"
    and pt: "\<forall>i<length (segments ?st). segments ?after ! i =
               (if speakerId (segments ?st ! i) = ''speaker_2''
                then (segments ?st ! i)\<lparr>speakerId := ''speaker_1''\<rparr>
                else segments ?st ! i)"
    and ros: "speakers ?after = filter (\<lambda>s. id_spk s \<noteq> ''speaker_2'') (speakers ?st)"
    unfolding Let_def by blast+
  have l2: "length (segments ?after) = 2" using len by simp
  have "segments ?after ! 0 = segments ?st ! 0" using pt by simp
  moreover have "segments ?after ! 1 = (segments ?st ! 1)\<lparr>speakerId := ''speaker_1''\<rparr>"
    using pt by simp
  ultimately have "map speakerId (segments ?after) = [''speaker_1'', ''speaker_1'']"
    using l2 by (intro nth_equalityI) (auto simp add: less_Suc_eq numeral_2_eq_2)
  moreover have "map id_spk (speakers ?after) = [''speaker_1'', ''speaker_3'', ''speaker_4'']"
    using ros by (simp add: initialState_def DEFAULT_SPEAKERS_def)
  ultimately show ?thesis using ne by blast
qed




section \<open>Properties of the time codec\<close>

subsection \<open>Evaluating floors of rational numerals\<close>

lemma floor_rat_numeral [simp]:
  "\<lfloor>numeral a / numeral b :: rat\<rfloor> = numeral a div numeral b"
  by (metis floor_divide_of_int_eq of_int_numeral)

lemma floor_rat_one_numeral [simp]: "\<lfloor>1 / numeral b :: rat\<rfloor> = 1 div numeral b"
  by (metis floor_divide_of_int_eq of_int_1 of_int_numeral)

lemma floor_rat_neg_numeral [simp]:
  "\<lfloor>- (numeral a / numeral b) :: rat\<rfloor> = - numeral a div numeral b"
  by (metis divide_minus_left floor_divide_of_int_eq of_int_neg_numeral of_int_numeral)

lemma floor_int_plus_half: "\<lfloor>(of_int z :: rat) + 1 / 2\<rfloor> = z"
  by (rule floor_unique) simp_all

lemma floor_nat_plus_half: "\<lfloor>(of_nat k :: rat) + 1 / 2\<rfloor> = int k"
  using floor_int_plus_half [of "int k"] by simp

subsection \<open>Digit strings\<close>

lemma digitChar_props:
  assumes "d < 10"
  shows "isDigit (digitChar d)" and "digitVal (digitChar d) = d"
    and "\<not> isWhite (digitChar d)" and "digitChar d \<noteq> CHR '':''"
    and "digitChar d \<noteq> CHR ''-''" and "digitChar d \<noteq> CHR ''+''"
proof -
  from assms have "d \<in> {0, 1, 2, 3, 4, 5, 6, 7, 8, 9}" by auto
  then show "isDigit (digitChar d)" and "digitVal (digitChar d) = d"
    and "\<not> isWhite (digitChar d)" and "digitChar d \<noteq> CHR '':''"
    and "digitChar d \<noteq> CHR ''-''" and "digitChar d \<noteq> CHR ''+''"
    by (auto simp add: digitChar_def isDigit_def digitVal_def isWhite_def)
qed

lemma natToString_digits: "c \<in> set (natToString n) \<Longrightarrow> c \<in> digitChar ` {..<10}"
proof (induction n arbitrary: c rule: natToString.induct)
  case (1 n)
  show ?case
  proof (cases "n < 10")
    case True
    with "1.prems" show ?thesis by (simp add: natToString.simps [of n])
  next
    case False
    with "1.prems" have "c \<in> set (natToString (n div 10)) \<or> c = digitChar (n mod 10)"
      by (auto simp add: natToString.simps [of n])
    then show ?thesis
    proof
      assume "c \<in> set (natToString (n div 10))"
      with "1.IH" False show ?thesis by simp
    next
      assume "c = digitChar (n mod 10)"
      then show ?thesis by simp
    qed
  qed
qed

lemma natToString_nonempty: "natToString n \<noteq> []"
  by (simp add: natToString.simps [of n])

lemma digitsValue_snoc: "digitsValue (ds @ [c]) = digitsValue ds * 10 + digitVal c"
  by (simp add: digitsValue_def)

lemma digitsValue_natToString: "digitsValue (natToString n) = n"
proof (induction n rule: natToString.induct)
  case (1 n)
  show ?case
  proof (cases "n < 10")
    case True
    then show ?thesis
      by (simp add: natToString.simps [of n] digitsValue_def digitChar_props)
  next
    case False
    have "digitsValue (natToString n) =
            digitsValue (natToString (n div 10)) * 10 + digitVal (digitChar (n mod 10))"
      using False by (simp add: natToString.simps [of n] digitsValue_snoc)
    also have "\<dots> = (n div 10) * 10 + n mod 10"
      using "1.IH" False by (simp add: digitChar_props)
    finally show ?thesis by simp
  qed
qed

lemma digitString_natToString: "digitString (natToString n)"
  using natToString_digits natToString_nonempty by (auto simp add: digitString_def)

lemma digitsValue_zeros: "digitsValue (replicate k (CHR ''0'') @ ds) = digitsValue ds"
proof -
  have "foldl (\<lambda>acc c. acc * 10 + digitVal c) 0 (replicate k (CHR ''0'')) = 0"
    by (induction k) (simp_all add: digitVal_def)
  then show ?thesis by (simp add: digitsValue_def)
qed

lemma zero_is_digitChar: "CHR ''0'' = digitChar 0"
  by (simp add: digitChar_def)

lemma digitString_padStart:
  "digitString ds \<Longrightarrow> digitString (padStart k (CHR ''0'') ds)"
  by (auto simp add: digitString_def padStart_def zero_is_digitChar)

lemma digitsValue_padStart:
  "digitsValue (padStart k (CHR ''0'') ds) = digitsValue ds"
  by (simp add: padStart_def digitsValue_zeros)

lemma digitString_all:
  assumes "digitString ds"
  shows "takeWhile isDigit ds = ds" and "dropWhile isDigit ds = []"
    and "dropWhile isWhite ds = ds" and "CHR '':'' \<notin> set ds"
    and "takeSign ds = (1, ds)"
proof -
  from assms obtain c cs where cs: "ds = c # cs" "c \<in> digitChar ` {..<10}"
    by (cases ds) (auto simp add: digitString_def)
  from assms have all: "\<forall>x\<in>set ds. isDigit x"
    by (auto simp add: digitString_def digitChar_props)
  show "takeWhile isDigit ds = ds" using all by simp
  show "dropWhile isDigit ds = []" using all by simp
  show "dropWhile isWhite ds = ds" using cs by (auto simp add: digitChar_props)
  show "CHR '':'' \<notin> set ds"
    using assms digitChar_props(4) by (fastforce simp add: digitString_def)
  show "takeSign ds = (1, ds)" using cs by (auto simp add: digitChar_props)
qed

lemma parseInt_digitString: "digitString ds \<Longrightarrow> parseInt ds = Fin (of_nat (digitsValue ds))"
  by (simp add: parseInt_def digitString_all) (simp add: digitString_def)

lemma parseFloat_digitString:
  "digitString ds \<Longrightarrow> parseFloat ds = Fin (of_nat (digitsValue ds))"
proof -
  assume d: "digitString ds"
  then obtain c cs where cs: "ds = c # cs" "c \<in> digitChar ` {..<10}"
    by (cases ds) (auto simp add: digitString_def)
  have noinf: "take 8 ds \<noteq> ''Infinity''"
    using cs by (auto simp add: digitChar_def less_Suc_eq numeral_nat)
  have "unsignedDecimal ds = Some (of_nat (digitsValue ds), [])"
    using d by (simp add: unsignedDecimal_def digitString_all exponentPart_def scale10_def
        digitsValue_def digitString_def)
  then show ?thesis
    using d noinf by (simp add: parseFloat_def strDecimalLiteral_def digitString_all)
qed

lemma splitOn_none: "sep \<notin> set s \<Longrightarrow> splitOn sep s = [s]"
  by (induction s) auto

lemma splitOn_one: "sep \<notin> set a \<Longrightarrow> sep \<notin> set b \<Longrightarrow> splitOn sep (a @ sep # b) = [a, b]"
  by (induction a) (auto simp add: splitOn_none)

subsection \<open>Formatting whole seconds\<close>

lemma formatTime_whole:
  assumes "n div 60 < 10 ^ 21"
  shows "formatTime (of_nat n) =
           padStart 2 (CHR ''0'') (natToString (n div 60)) @ '':'' @
           padStart 2 (CHR ''0'') (natToString (n mod 60))"
proof -
  have fl: "\<lfloor>(of_nat n :: rat) / 60\<rfloor> = int (n div 60)"
    using floor_divide_of_nat_eq [of n 60, where ?'a = rat] by simp
  have mins: "numberToString (int (n div 60)) = natToString (n div 60)"
  proof -
    have "int (n div 60) < 10 ^ 21" using assms by (metis of_nat_less_iff of_nat_numeral of_nat_power)
    then show ?thesis by (simp add: numberToString_def)
  qed
  have secs: "js_rem (of_nat n) 60 = (of_nat (n mod 60) :: rat)"
  proof -
    have "js_trunc ((of_nat n :: rat) / 60) = int (n div 60)"
      using fl by (simp add: js_trunc_def)
    then have "js_rem (of_nat n) 60 = (of_nat n :: rat) - 60 * of_nat (n div 60)"
      by (simp add: js_rem_def)
    also have "\<dots> = of_nat (n mod 60)"
    proof -
      have "(of_nat n :: rat) = of_nat (60 * (n div 60) + n mod 60)" by simp
      then show ?thesis by (simp only: of_nat_add of_nat_mult of_nat_numeral)
    qed
    finally show ?thesis .
  qed
  have rnd: "(of_int (math_round (of_nat k * 10)) :: rat) / 10 = of_nat k" for k
  proof -
    have "math_round (of_nat k * 10) = int (k * 10)"
      unfolding math_round_def using floor_nat_plus_half [of "k * 10"] by simp
    then show ?thesis by simp
  qed
  have whole: "js_rem (of_nat k) 1 = 0" for k
    by (simp add: js_rem_def js_trunc_def)
  have tf: "toFixed 0 (of_nat k) = natToString k" for k
    by (simp add: toFixed_def floor_nat_plus_half)
  show ?thesis
    by (simp add: formatTime_def fl mins secs rnd whole tf Let_def)
qed



text \<open>
  C9. From \<open>10^21\<close> minutes on, the minutes are printed with an exponent, and
  \<open>parseInt\<close> reads only the digits before it: \<open>6 * 10^22\<close> seconds are formatted as
  \<open>1e+21:00\<close>, which parses as 60 seconds.
\<close>

theorem formatTime_parseTime_huge_counterexample:
  "formatTime (6 * 10 ^ 22) = ''1e+21:00''
   \<and> parseTime (formatTime (6 * 10 ^ 22)) = Fin 60
   \<and> parseTime (formatTime (6 * 10 ^ 22)) \<noteq> Fin (6 * 10 ^ 22)"
proof -
  have n21: "natToString (10 ^ 21) = ''1000000000000000000000''"
    by (simp add: natToString.simps digitChar_def)
  have f: "formatTime (6 * 10 ^ 22) = ''1e+21:00''"
    by (simp add: formatTime_def numberToString_def n21 stripZeros_def natToString.simps
        digitChar_def js_rem_def js_trunc_def math_round_def toFixed_def padStart_def)
  have p: "parseTime ''1e+21:00'' = Fin 60"
    by (simp add: parseTime_def parseInt_def parseFloat_def isWhite_def isDigit_def
        digitsValue_def digitVal_def isNaN_def strDecimalLiteral_def unsignedDecimal_def
        exponentPart_def scale10_def)
  from f p show ?thesis by simp
qed

text \<open>
  C9, amended. For every non-negative integer \<open>n\<close> up to \<open>2^53 - 1\<close>, the range
  in which a JavaScript number holds every integer exactly,
  \<open>parseTime (formatTime n) = n\<close>.
\<close>

theorem parseTime_formatTime_whole_seconds:
  "n < 2 ^ 53 \<Longrightarrow> parseTime (formatTime (of_nat n)) = Fin (of_nat n)"
proof -
  assume "n < 2 ^ 53"
  then have "n div 60 < 10 ^ 21" by simp
  from formatTime_whole [OF this]
  have fmt: "formatTime (of_nat n) =
           padStart 2 (CHR ''0'') (natToString (n div 60)) @ CHR '':'' #
           padStart 2 (CHR ''0'') (natToString (n mod 60))"
    by simp
  let ?m = "padStart 2 (CHR ''0'') (natToString (n div 60))"
  let ?s = "padStart 2 (CHR ''0'') (natToString (n mod 60))"
  have dm: "digitString ?m" and ds: "digitString ?s"
    by (simp_all add: digitString_padStart digitString_natToString)
  have parts: "splitOn (CHR '':'') (formatTime (of_nat n)) = [?m, ?s]"
    unfolding fmt using dm ds by (intro splitOn_one) (simp_all add: digitString_all)
  have pm: "parseInt ?m = Fin (of_nat (n div 60))"
    using dm by (simp add: parseInt_digitString digitsValue_padStart digitsValue_natToString)
  have ps: "parseFloat ?s = Fin (of_nat (n mod 60))"
    using ds by (simp add: parseFloat_digitString digitsValue_padStart digitsValue_natToString)
  have "parseTime (formatTime (of_nat n)) =
          Fin (of_nat (n div 60) * 60 + of_nat (n mod 60))"
    by (simp add: parseTime_def parts pm ps isNaN_def)
  also have "of_nat (n div 60) * 60 + of_nat (n mod 60) = (of_nat (n div 60 * 60 + n mod 60) :: rat)"
    by (simp only: of_nat_add of_nat_mult of_nat_numeral)
  also have "n div 60 * 60 + n mod 60 = n" by simp
  finally show ?thesis .
qed

theorem parseTime_formatTime_whole_seconds_witness:
  "(3661 :: nat) < 2 ^ 53 \<and> formatTime 3661 = ''61:01'' \<and> parseTime ''61:01'' = Fin 3661"
proof -
  have b: "(3661 :: nat) < 2 ^ 53" by simp
  have f: "formatTime 3661 = ''61:01''"
    by (simp add: formatTime_def numberToString_def natToString.simps
        digitChar_def js_rem_def js_trunc_def math_round_def toFixed_def padStart_def)
  from parseTime_formatTime_whole_seconds [OF b] f b show ?thesis by simp
qed

section \<open>Properties of the drag controller\<close>

text \<open>
  C1. A right-edge drag clamps the candidate end to \<open>initialStart + 0.5\<close> and snaps it
  afterwards, so the snap can carry the end below the clamp. The segment runs from
  \<open>00:00.2\<close> to \<open>00:02\<close>, both snaps are on and there is no other segment. Dragging
  the right edge 5 seconds to the left gives the candidate \<open>0.7\<close>, which the grid of
  half seconds takes to \<open>0.5\<close>: the store then holds the end \<open>00:00.5\<close> with the start
  \<open>00:00.2\<close>, a duration of \<open>0.3\<close> seconds. With a second segment that ends at
  \<open>00:01.4\<close>, a segment from \<open>00:01\<close> to \<open>00:03\<close> dragged the same way has the
  candidate \<open>1.5\<close>, which snaps to that edge: the duration is \<open>0.4\<close> seconds.
\<close>

theorem rightEdge_snap_below_min_duration:
  "handleSegmentDragStart 100 ''1'' DragRight
      \<lparr>id_seg = ''1'', speakerId = ''speaker_1'', startTime = ''00:00.2'',
       endTime = ''00:02'', text_seg = ''Hello''\<rparr>
     = Some \<lparr>segmentId = ''1'', mode = DragRight, initialX = 100,
             initialStartTime = 1 / 5, initialEndTime = 2\<rparr>
   \<and> segments (snd (handleMouseMove
        \<lparr>segmentId = ''1'', mode = DragRight, initialX = 100,
         initialStartTime = 1 / 5, initialEndTime = 2\<rparr> (- 5)
        (\<lparr>gridSnap = True, dragLineSnap = True, snapGuides = []\<rparr>,
         initialState\<lparr>segments :=
           [\<lparr>id_seg = ''1'', speakerId = ''speaker_1'', startTime = ''00:00.2'',
             endTime = ''00:02'', text_seg = ''Hello''\<rparr>]\<rparr>)))
     = [\<lparr>id_seg = ''1'', speakerId = ''speaker_1'', startTime = ''00:00.2'',
         endTime = ''00:00.5'', text_seg = ''Hello''\<rparr>]
   \<and> js_sub (parseTime ''00:00.5'') (parseTime ''00:00.2'') = Fin (3 / 10)
   \<and> segments (snd (handleMouseMove
        \<lparr>segmentId = ''1'', mode = DragRight, initialX = 100,
         initialStartTime = 1, initialEndTime = 3\<rparr> (- 5)
        (\<lparr>gridSnap = True, dragLineSnap = True, snapGuides = []\<rparr>,
         initialState\<lparr>segments :=
           [\<lparr>id_seg = ''0'', speakerId = ''speaker_2'', startTime = ''00:00'',
             endTime = ''00:01.4'', text_seg = ''Hi''\<rparr>,
            \<lparr>id_seg = ''1'', speakerId = ''speaker_1'', startTime = ''00:01'',
             endTime = ''00:03'', text_seg = ''Hello''\<rparr>]\<rparr>)))
     = [\<lparr>id_seg = ''0'', speakerId = ''speaker_2'', startTime = ''00:00'',
         endTime = ''00:01.4'', text_seg = ''Hi''\<rparr>,
        \<lparr>id_seg = ''1'', speakerId = ''speaker_1'', startTime = ''00:01'',
         endTime = ''00:01.4'', text_seg = ''Hello''\<rparr>]
   \<and> js_sub (parseTime ''00:01.4'') (parseTime ''00:01'') = Fin (2 / 5)"
proof -
  have a: "handleSegmentDragStart 100 ''1'' DragRight
      \<lparr>id_seg = ''1'', speakerId = ''speaker_1'', startTime = ''00:00.2'',
       endTime = ''00:02'', text_seg = ''Hello''\<rparr>
     = Some \<lparr>segmentId = ''1'', mode = DragRight, initialX = 100,
             initialStartTime = 1 / 5, initialEndTime = 2\<rparr>"
    by code_simp
  have b: "segments (snd (handleMouseMove
        \<lparr>segmentId = ''1'', mode = DragRight, initialX = 100,
         initialStartTime = 1 / 5, initialEndTime = 2\<rparr> (- 5)
        (\<lparr>gridSnap = True, dragLineSnap = True, snapGuides = []\<rparr>,
         initialState\<lparr>segments :=
           [\<lparr>id_seg = ''1'', speakerId = ''speaker_1'', startTime = ''00:00.2'',
             endTime = ''00:02'', text_seg = ''Hello''\<rparr>]\<rparr>)))
     = [\<lparr>id_seg = ''1'', speakerId = ''speaker_1'', startTime = ''00:00.2'',
         endTime = ''00:00.5'', text_seg = ''Hello''\<rparr>]"
    by code_simp
  have c: "js_sub (parseTime ''00:00.5'') (parseTime ''00:00.2'') = Fin (3 / 10)"
    by code_simp
  have d: "segments (snd (handleMouseMove
        \<lparr>segmentId = ''1'', mode = DragRight, initialX = 100,
         initialStartTime = 1, initialEndTime = 3\<rparr> (- 5)
        (\<lparr>gridSnap = True, dragLineSnap = True, snapGuides = []\<rparr>,
         initialState\<lparr>segments :=
           [\<lparr>id_seg = ''0'', speakerId = ''speaker_2'', startTime = ''00:00'',
             endTime = ''00:01.4'', text_seg = ''Hi''\<rparr>,
            \<lparr>id_seg = ''1'', speakerId = ''speaker_1'', startTime = ''00:01'',
             endTime = ''00:03'', text_seg = ''Hello''\<rparr>]\<rparr>)))
     = [\<lparr>id_seg = ''0'', speakerId = ''speaker_2'', startTime = ''00:00'',
         endTime = ''00:01.4'', text_seg = ''Hi''\<rparr>,
        \<lparr>id_seg = ''1'', speakerId = ''speaker_1'', startTime = ''00:01'',
         endTime = ''00:01.4'', text_seg = ''Hello''\<rparr>]"
    by code_simp
  have e: "js_sub (parseTime ''00:01.4'') (parseTime ''00:01'') = Fin (2 / 5)"
    by code_simp
  from a b c d e show ?thesis by blast
qed

section \<open>Properties of adding a segment\<close>

subsection \<open>Comparing numbers\<close>





subsection \<open>The sort\<close>










subsection \<open>The strings of \<open>formatTime\<close> are numbers for \<open>Number\<close>\<close>






















subsection \<open>Well-formed start times: the key is the parsed time\<close>

















section \<open>Properties of the history\<close>






end
